theory Spec2Isabelle
  imports Complex_Main "HOL-Library.Char_ord" "HOL-Library.List_Lexorder"
    "HOL-Library.Product_Lexorder" "HOL-Library.AList"
begin

section \<open>Values, errors and the outside world\<close>

text \<open>
  The program is \<^verbatim>\<open>app.py\<close>: a resilient GET (\<^verbatim>\<open>safe_get\<close>) and a cursor-paginated
  collector (\<^verbatim>\<open>fetch_games\<close>) that turns the collected rows into a table.

  Decoded JSON is what \<^verbatim>\<open>r.json()\<close> hands to the program. Objects are association lists
  in insertion order, as Python dictionaries are; numbers are the integers (the upstream's
  ids, scores and cursors), Python's unbounded \<^verbatim>\<open>int\<close>.
\<close>

datatype json =
    JNull
  | JBool bool
  | JInt int
  | JStr string
  | JList "json list"
  | JObj "(string \<times> json) list"

text \<open>Exceptions are values. Each carries the text that \<^verbatim>\<open>str(e)\<close> gives.\<close>

datatype py_error =
    RuntimeError string
  | AttributeError string
  | TypeError string
  | KeyError string
  | ValueError string
  | StopException

text \<open>
  One call of \<^verbatim>\<open>requests.get\<close> is described by what the program passes in. A response is
  described by what the program reads from it: \<^verbatim>\<open>r.status_code\<close>, whether
  \<^verbatim>\<open>r.raise_for_status()\<close> raises (and with which text), and what \<^verbatim>\<open>r.json()\<close> gives
  (a decode error's text, or the decoded body).
\<close>

record request =
  req_url :: string
  req_params :: "(string \<times> json) list"
  req_headers :: "(string \<times> string) list"
  req_timeout :: int

record response =
  status_code :: int
  raise_for_status :: "string option"
  json_body :: "string + json"

text \<open>
  The network is a function of the number of calls made so far and of the request: it
  either raises (\<open>Inl\<close>, the exception's text) or answers. This covers every deterministic
  server, also one that answers the same request differently the second time.
\<close>

type_synonym transport = "nat \<Rightarrow> request \<Rightarrow> string + response"

text \<open>
  The effects of a run: the requests sent through \<^verbatim>\<open>requests.get\<close> and the durations
  passed to \<^verbatim>\<open>time.sleep\<close>, both in order. Durations are Python floats in the source;
  here they are reals and \<^verbatim>\<open>backoff ** i\<close> is exact exponentiation.
\<close>

record world =
  http_log :: "request list"
  sleep_log :: "real list"

definition py_sleep :: "real \<Rightarrow> world \<Rightarrow> py_error + world" where
  \<comment> \<open>\<^verbatim>\<open>time.sleep\<close> refuses a negative duration.\<close>
  "py_sleep d w =
     (if d < 0 then Inl (ValueError ''sleep length must be non-negative'')
      else Inr (w\<lparr>sleep_log := sleep_log w @ [d]\<rparr>))"

subsection \<open>Rendering integers\<close>

definition digit :: "nat \<Rightarrow> char" where
  "digit n = ''0123456789'' ! n"

fun str_nat :: "nat \<Rightarrow> string" where
  "str_nat n = (if n < 10 then [digit n] else str_nat (n div 10) @ [digit (n mod 10)])"

declare str_nat.simps [simp del]

definition str_int :: "int \<Rightarrow> string" where
  \<comment> \<open>\<^verbatim>\<open>str(n)\<close> for a Python int.\<close>
  "str_int n = (if n < 0 then CHR ''-'' # str_nat (nat (- n)) else str_nat (nat n))"

section \<open>The resilient request executor: \<^verbatim>\<open>safe_get\<close>\<close>

text \<open>
  What one pass through the \<^verbatim>\<open>try\<close> block observes before any sleep: the body was
  returned, the status was 429, or an exception was raised (by \<^verbatim>\<open>requests.get\<close>, by
  \<^verbatim>\<open>raise_for_status\<close> or by \<^verbatim>\<open>json\<close>, in this order).
\<close>

datatype outcome = Done json | RateLimited | Failed string

definition classify :: "string + response \<Rightarrow> outcome" where
  "classify a =
     (case a of
        Inl e \<Rightarrow> Failed e
      | Inr r \<Rightarrow>
          if status_code r = 429 then RateLimited
          else (case raise_for_status r of
                  Some e \<Rightarrow> Failed e
                | None \<Rightarrow> (case json_body r of Inl e \<Rightarrow> Failed e | Inr v \<Rightarrow> Done v)))"

definition terminal_message :: "int \<Rightarrow> string option \<Rightarrow> string" where
  \<comment> \<open>\<^verbatim>\<open>f"Request failed after {retries} tries: {last_err}"\<close>\<close>
  "terminal_message retries last_err =
     ''Request failed after '' @ str_int retries @ '' tries: ''
       @ (case last_err of None \<Rightarrow> ''None'' | Some e \<Rightarrow> e)"

text \<open>
  The \<^verbatim>\<open>for i in range(retries)\<close> loop, over the indices still to run. A 429 sleeps and
  continues without touching \<^verbatim>\<open>last_err\<close>; an exception is recorded in \<^verbatim>\<open>last_err\<close> and
  sleeps in the handler. A sleep that raises leaves the function: inside the \<^verbatim>\<open>try\<close> it
  is caught and the handler's own sleep raises again.
\<close>

fun safe_get_loop ::
  "transport \<Rightarrow> request \<Rightarrow> int \<Rightarrow> real \<Rightarrow> nat list \<Rightarrow> string option \<Rightarrow> world
     \<Rightarrow> (py_error + json) \<times> world" where
  "safe_get_loop net rq retries backoff [] last_err w =
     (Inl (RuntimeError (terminal_message retries last_err)), w)"
| "safe_get_loop net rq retries backoff (i # rest) last_err w =
     (let w1 = w\<lparr>http_log := http_log w @ [rq]\<rparr> in
      case classify (net (length (http_log w)) rq) of
        Done v \<Rightarrow> (Inr v, w1)
      | RateLimited \<Rightarrow>
          (case py_sleep (backoff ^ i) w1 of
             Inl err \<Rightarrow> (Inl err, w1)
           | Inr w2 \<Rightarrow> safe_get_loop net rq retries backoff rest last_err w2)
      | Failed e \<Rightarrow>
          (case py_sleep (backoff ^ i) w1 of
             Inl err \<Rightarrow> (Inl err, w1)
           | Inr w2 \<Rightarrow> safe_get_loop net rq retries backoff rest (Some e) w2))"

definition safe_get ::
  "transport \<Rightarrow> string \<Rightarrow> (string \<times> json) list \<Rightarrow> (string \<times> string) list
     \<Rightarrow> int \<Rightarrow> int \<Rightarrow> real \<Rightarrow> world \<Rightarrow> (py_error + json) \<times> world" where
  "safe_get net url params headers timeout retries backoff w =
     safe_get_loop net
       \<lparr>req_url = url, req_params = params, req_headers = headers, req_timeout = timeout\<rparr>
       retries backoff [0..<nat retries] None w"

section \<open>The paginated collector: the loop of \<^verbatim>\<open>fetch_games\<close>\<close>

subsection \<open>Python operations on decoded JSON\<close>

definition truthy :: "json \<Rightarrow> bool" where
  "truthy v =
     (case v of
        JNull \<Rightarrow> False
      | JBool b \<Rightarrow> b
      | JInt n \<Rightarrow> n \<noteq> 0
      | JStr s \<Rightarrow> s \<noteq> []
      | JList xs \<Rightarrow> xs \<noteq> []
      | JObj kvs \<Rightarrow> kvs \<noteq> [])"

definition dict_get :: "json \<Rightarrow> string \<Rightarrow> json \<Rightarrow> py_error + json" where
  \<comment> \<open>\<^verbatim>\<open>d.get(k, default)\<close>; only a dictionary has \<^verbatim>\<open>get\<close>.\<close>
  "dict_get d k dflt =
     (case d of
        JObj kvs \<Rightarrow> Inr (case map_of kvs k of None \<Rightarrow> dflt | Some v \<Rightarrow> v)
      | _ \<Rightarrow> Inl (AttributeError ''get''))"

definition py_iter :: "json \<Rightarrow> py_error + json list" where
  \<comment> \<open>what \<^verbatim>\<open>rows.extend(x)\<close> appends: the elements of a list, the keys of a dictionary,
      the characters of a string; anything else is not iterable.\<close>
  "py_iter v =
     (case v of
        JList xs \<Rightarrow> Inr xs
      | JObj kvs \<Rightarrow> Inr (map (\<lambda>kv. JStr (fst kv)) kvs)
      | JStr s \<Rightarrow> Inr (map (\<lambda>c. JStr [c]) s)
      | _ \<Rightarrow> Inl (TypeError ''object is not iterable''))"

subsection \<open>Dates and request parameters\<close>

record date =
  year :: nat
  month :: nat
  day :: nat

definition zero_pad :: "nat \<Rightarrow> string \<Rightarrow> string" where
  "zero_pad n s = replicate (n - length s) (CHR ''0'') @ s"

definition isoformat :: "date \<Rightarrow> string" where
  \<comment> \<open>\<^verbatim>\<open>d.isoformat()\<close>: \<^verbatim>\<open>YYYY-MM-DD\<close>\<close>
  "isoformat d =
     zero_pad 4 (str_nat (year d)) @ ''-'' @ zero_pad 2 (str_nat (month d)) @ ''-''
       @ zero_pad 2 (str_nat (day d))"

definition API_BASE :: string where
  "API_BASE = ''https://api.balldontlie.io''"

definition games_url :: string where
  "games_url = API_BASE @ ''/v1/games''"

definition page_params :: "date \<Rightarrow> date \<Rightarrow> int \<Rightarrow> json \<Rightarrow> (string \<times> json) list" where
  "page_params start_date end_date per_page cursor =
     [(''start_date'', JStr (isoformat start_date)),
      (''end_date'', JStr (isoformat end_date)),
      (''per_page'', JInt per_page),
      (''cursor'', cursor)]"

subsection \<open>One page, and the loop\<close>

text \<open>
  Lines 61 to 64: the rows of a payload and its next cursor.
  \<^verbatim>\<open>payload.get("data", [])\<close>, then \<^verbatim>\<open>rows.extend\<close>, then
  \<^verbatim>\<open>payload.get("meta", {}) or {}\<close>, then \<^verbatim>\<open>meta.get("next_cursor")\<close>; each can raise.
\<close>

definition read_page :: "json \<Rightarrow> py_error + (json list \<times> json)" where
  "read_page payload =
     (case dict_get payload ''data'' (JList []) of
        Inl e \<Rightarrow> Inl e
      | Inr d \<Rightarrow>
          (case py_iter d of
             Inl e \<Rightarrow> Inl e
           | Inr items \<Rightarrow>
               (case dict_get payload ''meta'' (JObj []) of
                  Inl e \<Rightarrow> Inl e
                | Inr m \<Rightarrow>
                    (case dict_get (if truthy m then m else JObj []) ''next_cursor'' JNull of
                       Inl e \<Rightarrow> Inl e
                     | Inr next_cursor \<Rightarrow> Inr (items, next_cursor)))))"

text \<open>
  The \<^verbatim>\<open>while True\<close> loop (lines 53 to 67). Nothing in the source bounds it, so the model
  takes fuel, one unit per page: \<open>None\<close> means that the fuel ran out before the loop
  left, and the world returned with it is the world at that moment. \<^verbatim>\<open>safe_get\<close> is called
  with its defaults: timeout 20, 4 tries, base 1.8.
\<close>

fun fetch_games_loop ::
  "nat \<Rightarrow> transport \<Rightarrow> (string \<times> string) list \<Rightarrow> date \<Rightarrow> date \<Rightarrow> int \<Rightarrow> json \<Rightarrow> json list
     \<Rightarrow> world \<Rightarrow> (py_error + json list) option \<times> world" where
  "fetch_games_loop 0 net headers start_date end_date per_page cursor rows w = (None, w)"
| "fetch_games_loop (Suc fuel) net headers start_date end_date per_page cursor rows w =
     (case safe_get net games_url (page_params start_date end_date per_page cursor) headers
             20 4 (9/5) w of
        (Inl e, w') \<Rightarrow> (Some (Inl e), w')
      | (Inr payload, w') \<Rightarrow>
          (case read_page payload of
             Inl e \<Rightarrow> (Some (Inl e), w')
           | Inr (items, next_cursor) \<Rightarrow>
               if next_cursor = JNull then (Some (Inr (rows @ items)), w')
               else fetch_games_loop fuel net headers start_date end_date per_page
                      next_cursor (rows @ items) w'))"

text \<open>
  \<^verbatim>\<open>bdl_headers\<close>: the key is the first non-empty of two environment variables; without
  one the script is stopped (\<^verbatim>\<open>st.stop()\<close> raises).
\<close>

definition bdl_headers :: "(string \<rightharpoonup> string) \<Rightarrow> py_error + (string \<times> string) list" where
  "bdl_headers env =
     (let api_key =
        (case env ''BALLDONTLIE_API_KEY'' of
           None \<Rightarrow> env ''BALDONTLIE_API_KEY''
         | Some k \<Rightarrow> if k \<noteq> [] then Some k else env ''BALDONTLIE_API_KEY'')
      in case api_key of
           None \<Rightarrow> Inl StopException
         | Some k \<Rightarrow> if k = [] then Inl StopException else Inr [(''Authorization'', k)])"

section \<open>From collected rows to the table\<close>

text \<open>
  After the loop \<^verbatim>\<open>fetch_games\<close> hands the rows to pandas. The operations it uses are
  modelled here by what they do to the values of this program. A table has its column
  names in order and its rows; a row holds one cell per column, under the column's name.
  A cell is missing (\<open>NaN\<close>) or holds a value; \<open>Val JNull\<close> is Python's \<^verbatim>\<open>None\<close>, which
  pandas also counts as missing.
\<close>

datatype cell = NaN | Val json

definition isna :: "cell \<Rightarrow> bool" where
  "isna c = (c = NaN \<or> c = Val JNull)"

record dataframe =
  df_columns :: "string list"
  df_rows :: "(string \<times> cell) list list"

definition empty_frame :: dataframe where
  "empty_frame = \<lparr>df_columns = [], df_rows = []\<rparr>"

definition cell_of :: "(string \<times> cell) list \<Rightarrow> string \<Rightarrow> cell" where
  "cell_of r c = (case map_of r c of None \<Rightarrow> NaN | Some x \<Rightarrow> x)"

text \<open>
  \<^verbatim>\<open>pd.json_normalize(rows)\<close>: every row is flattened (a nested object's fields are
  renamed \<^verbatim>\<open>outer.inner\<close> and placed after the row's plain fields, a later field of the
  same name replacing the value), the columns are the fields in order of first appearance,
  and a field that a row lacks is \<open>NaN\<close> there. The rows are expected to be objects; the
  model gives an error for a row that is not.
\<close>

definition is_dict :: "json \<Rightarrow> bool" where
  "is_dict v = (case v of JObj kvs \<Rightarrow> True | _ \<Rightarrow> False)"

fun flatten_fields :: "string \<Rightarrow> (string \<times> json) list \<Rightarrow> (string \<times> json) list"
  and flatten_value :: "string \<Rightarrow> json \<Rightarrow> (string \<times> json) list" where
  "flatten_fields prefix [] = []"
| "flatten_fields prefix (kv # kvs) =
     flatten_value (prefix @ ''.'' @ fst kv) (snd kv) @ flatten_fields prefix kvs"
| "flatten_value key (JObj kvs) = flatten_fields key kvs"
| "flatten_value key JNull = [(key, JNull)]"
| "flatten_value key (JBool b) = [(key, JBool b)]"
| "flatten_value key (JInt n) = [(key, JInt n)]"
| "flatten_value key (JStr s) = [(key, JStr s)]"
| "flatten_value key (JList xs) = [(key, JList xs)]"

definition dict_of :: "(string \<times> 'a) list \<Rightarrow> (string \<times> 'a) list" where
  "dict_of kvs = foldl (\<lambda>d kv. AList.update (fst kv) (snd kv) d) [] kvs"

definition normalise_record :: "(string \<times> json) list \<Rightarrow> (string \<times> json) list" where
  "normalise_record kvs =
     dict_of (filter (\<lambda>kv. \<not> is_dict (snd kv)) kvs
              @ concat (map (\<lambda>kv. flatten_value (fst kv) (snd kv))
                          (filter (\<lambda>kv. is_dict (snd kv)) kvs)))"

definition add_column :: "string list \<Rightarrow> string \<Rightarrow> string list" where
  "add_column cols c = (if c \<in> set cols then cols else cols @ [c])"

definition json_normalize :: "json list \<Rightarrow> py_error + dataframe" where
  "json_normalize rows =
     (if list_all is_dict rows then
        (let recs = map (\<lambda>r. case r of JObj kvs \<Rightarrow> normalise_record kvs | _ \<Rightarrow> []) rows;
             cols = foldl add_column [] (concat (map (map fst) recs))
         in Inr \<lparr>df_columns = cols,
                 df_rows = map (\<lambda>rec. map (\<lambda>c. (c, case map_of rec c of
                                                       None \<Rightarrow> NaN | Some v \<Rightarrow> Val v)) cols) recs\<rparr>)
      else Inl (AttributeError ''values''))"


text \<open>
  \<^verbatim>\<open>df[c] = values\<close> replaces the column in place or appends it; \<^verbatim>\<open>df.get(c, default)\<close>
  gives the column, or the default (here \<open>None\<close> stands for the default \<^verbatim>\<open>""\<close>).
\<close>

definition set_column :: "string \<Rightarrow> cell list \<Rightarrow> dataframe \<Rightarrow> dataframe" where
  "set_column c vals df =
     \<lparr>df_columns = add_column (df_columns df) c,
      df_rows = map (\<lambda>rv. AList.update c (snd rv) (fst rv)) (zip (df_rows df) vals)\<rparr>"

definition column :: "dataframe \<Rightarrow> string \<Rightarrow> cell list" where
  "column df c = map (\<lambda>r. cell_of r c) (df_rows df)"

text \<open>
  Lines 75 to 79. \<^verbatim>\<open>pd.to_datetime(..., errors="coerce", utc=True)\<close>, the conversion to
  Europe/Madrid and \<^verbatim>\<open>strftime\<close> are one function \<open>tz\<close> of the raw value, a parameter of
  the model: \<open>None\<close> where the value does not parse (\<^verbatim>\<open>NaT\<close>), which leaves the cell
  missing. Without a \<^verbatim>\<open>datetime\<close> column every cell is \<^verbatim>\<open>None\<close>.
\<close>

definition tipoff_cell :: "(json \<Rightarrow> string option) \<Rightarrow> cell \<Rightarrow> cell" where
  "tipoff_cell tz c =
     (case c of
        NaN \<Rightarrow> NaN
      | Val JNull \<Rightarrow> NaN
      | Val v \<Rightarrow> (case tz v of None \<Rightarrow> NaN | Some s \<Rightarrow> Val (JStr s)))"

definition add_tipoff_local :: "(json \<Rightarrow> string option) \<Rightarrow> dataframe \<Rightarrow> dataframe" where
  "add_tipoff_local tz df =
     (if ''datetime'' \<in> set (df_columns df)
      then set_column ''tipoff_local'' (map (tipoff_cell tz) (column df ''datetime'')) df
      else set_column ''tipoff_local'' (replicate (length (df_rows df)) (Val JNull)) df)"

text \<open>
  Lines 81 to 85. \<^verbatim>\<open>df.get(name, "")\<close> gives the string \<^verbatim>\<open>""\<close> when the column is absent,
  and a string has no \<^verbatim>\<open>fillna\<close>. \<^verbatim>\<open>fillna("")\<close> replaces the missing cells, and \<^verbatim>\<open>+\<close>
  concatenates cell by cell; it raises unless both cells are strings. The operands are
  evaluated left to right.
\<close>

definition df_get :: "dataframe \<Rightarrow> string \<Rightarrow> cell list option" where
  "df_get df c = (if c \<in> set (df_columns df) then Some (column df c) else None)"

definition fillna_empty :: "cell \<Rightarrow> cell" where
  "fillna_empty c = (if isna c then Val (JStr []) else c)"

definition str_add :: "cell \<Rightarrow> cell \<Rightarrow> py_error + cell" where
  "str_add a b =
     (case a of
        Val (JStr s) \<Rightarrow>
          (case b of
             Val (JStr t) \<Rightarrow> Inr (Val (JStr (s @ t)))
           | _ \<Rightarrow> Inl (TypeError ''can only concatenate str to str''))
      | _ \<Rightarrow> Inl (TypeError ''unsupported operand types for +''))"

fun collect :: "(py_error + 'a) list \<Rightarrow> py_error + 'a list" where
  "collect [] = Inr []"
| "collect (x # xs) =
     (case x of
        Inl e \<Rightarrow> Inl e
      | Inr v \<Rightarrow> (case collect xs of Inl e \<Rightarrow> Inl e | Inr vs \<Rightarrow> Inr (v # vs)))"

definition matchup_column :: "dataframe \<Rightarrow> py_error + cell list" where
  "matchup_column df =
     (case df_get df ''visitor_team.full_name'' of
        None \<Rightarrow> Inl (AttributeError ''fillna'')
      | Some vs \<Rightarrow>
          (case collect (map (\<lambda>c. str_add (fillna_empty c) (Val (JStr '' @ ''))) vs) of
             Inl e \<Rightarrow> Inl e
           | Inr left \<Rightarrow>
               (case df_get df ''home_team.full_name'' of
                  None \<Rightarrow> Inl (AttributeError ''fillna'')
                | Some hs \<Rightarrow>
                    collect (map (\<lambda>lh. str_add (fst lh) (fillna_empty (snd lh))) (zip left hs)))))"

text \<open>Lines 87 to 99: the columns to keep, and \<^verbatim>\<open>df[[...]]\<close>.\<close>

definition keep :: "string list" where
  "keep = [''id'', ''date'', ''tipoff_local'', ''status'', ''postseason'',
           ''visitor_team.abbreviation'', ''visitor_team_score'',
           ''home_team.abbreviation'', ''home_team_score'', ''matchup'']"

definition select_columns :: "string list \<Rightarrow> dataframe \<Rightarrow> py_error + dataframe" where
  "select_columns cs df =
     (case filter (\<lambda>c. c \<notin> set (df_columns df)) cs of
        c # rest \<Rightarrow> Inl (KeyError c)
      | [] \<Rightarrow> Inr \<lparr>df_columns = cs, df_rows = map (\<lambda>r. map (\<lambda>c. (c, cell_of r c)) cs) (df_rows df)\<rparr>)"

text \<open>
  Lines 102 and 103. \<^verbatim>\<open>sort_values\<close> with several keys is a stable sort on the keys in
  order, ascending, with missing cells last in each key. Strings compare character by
  character and numbers by value; a column that mixes the two, or holds lists, cannot be
  ordered. A key that is not a column raises \<^verbatim>\<open>KeyError\<close>.
\<close>

definition cell_key :: "cell \<Rightarrow> nat \<times> int \<times> string" where
  "cell_key c =
     (case c of
        NaN \<Rightarrow> (2, 0, [])
      | Val JNull \<Rightarrow> (2, 0, [])
      | Val (JInt n) \<Rightarrow> (0, n, [])
      | Val (JBool b) \<Rightarrow> (0, if b then 1 else 0, [])
      | Val (JStr s) \<Rightarrow> (1, 0, s)
      | Val other \<Rightarrow> (3, 0, []))"

definition is_str :: "cell \<Rightarrow> bool" where
  "is_str c = (case c of Val (JStr s) \<Rightarrow> True | _ \<Rightarrow> False)"

definition is_num :: "cell \<Rightarrow> bool" where
  "is_num c = (case c of Val (JInt n) \<Rightarrow> True | Val (JBool b) \<Rightarrow> True | _ \<Rightarrow> False)"

definition sortable :: "cell list \<Rightarrow> bool" where
  "sortable cells =
     (list_all (\<lambda>c. isna c \<or> is_str c) cells \<or> list_all (\<lambda>c. isna c \<or> is_num c) cells)"

definition sort_values :: "string list \<Rightarrow> dataframe \<Rightarrow> py_error + dataframe" where
  "sort_values by df =
     (case filter (\<lambda>c. c \<notin> set (df_columns df)) by of
        c # rest \<Rightarrow> Inl (KeyError c)
      | [] \<Rightarrow>
          if list_all (\<lambda>c. sortable (column df c)) by
          then Inr (df\<lparr>df_rows := sort_key (\<lambda>r. map (\<lambda>c. cell_key (cell_of r c)) by) (df_rows df)\<rparr>)
          else Inl (TypeError ''values are not ordered''))"

text \<open>Lines 69 to 105: what \<^verbatim>\<open>fetch_games\<close> does with the collected rows.\<close>

definition build_frame :: "(json \<Rightarrow> string option) \<Rightarrow> json list \<Rightarrow> py_error + dataframe" where
  "build_frame tz rows =
     (if rows = [] then Inr empty_frame
      else
        (case json_normalize rows of
           Inl e \<Rightarrow> Inl e
         | Inr df0 \<Rightarrow>
             (let df1 = add_tipoff_local tz df0 in
              case matchup_column df1 of
                Inl e \<Rightarrow> Inl e
              | Inr m \<Rightarrow>
                  (let df2 = set_column ''matchup'' m df1 in
                   case select_columns (filter (\<lambda>c. c \<in> set (df_columns df2)) keep) df2 of
                     Inl e \<Rightarrow> Inl e
                   | Inr df3 \<Rightarrow>
                       sort_values
                         (''date'' # (if ''tipoff_local'' \<in> set (df_columns df3)
                                       then [''tipoff_local''] else []))
                         df3))))"

text \<open>
  \<^verbatim>\<open>fetch_games\<close> itself (without the cache of line 45): the headers, the loop, the table.
  \<open>env\<close> is the process environment.
\<close>

definition fetch_games ::
  "nat \<Rightarrow> (string \<rightharpoonup> string) \<Rightarrow> transport \<Rightarrow> (json \<Rightarrow> string option) \<Rightarrow> date \<Rightarrow> date \<Rightarrow> int
     \<Rightarrow> world \<Rightarrow> (py_error + dataframe) option \<times> world" where
  "fetch_games fuel env net tz start_date end_date per_page w =
     (case bdl_headers env of
        Inl e \<Rightarrow> (Some (Inl e), w)
      | Inr headers \<Rightarrow>
          (case fetch_games_loop fuel net headers start_date end_date per_page (JInt 0) [] w of
             (None, w') \<Rightarrow> (None, w')
           | (Some (Inl e), w') \<Rightarrow> (Some (Inl e), w')
           | (Some (Inr rows), w') \<Rightarrow> (Some (build_frame tz rows), w')))"

subsection \<open>The cache around \<^verbatim>\<open>fetch_games\<close>\<close>

type_synonym cache = "(date \<times> date \<times> int) \<rightharpoonup> (dataframe \<times> nat)"

definition ttl :: nat where
  "ttl = 60 * 10"

definition cache_live :: "cache \<Rightarrow> date \<times> date \<times> int \<Rightarrow> nat \<Rightarrow> bool" where
  "cache_live c key now = (case c key of None \<Rightarrow> False | Some (df, t0) \<Rightarrow> now < t0 + ttl)"

text \<open>
  Modelled from the spec: the cache that the decorator \<^verbatim>\<open>st.cache_data(ttl=60 * 10)\<close> of
  line 45 puts around \<^verbatim>\<open>fetch_games\<close>. Its code is Streamlit's and is not in the
  repository; the spec says that results are memoized under the key
  \<open>(start_date, end_date, per_page)\<close> for ten minutes from the computation, that a call with
  the same key inside the window returns the stored result without contacting the
  executor, and that entries expire on their own. Only a returned table is stored, an
  exception is not. The clock is a parameter, in seconds.
\<close>

definition cached_fetch_games ::
  "nat \<Rightarrow> (string \<rightharpoonup> string) \<Rightarrow> transport \<Rightarrow> (json \<Rightarrow> string option) \<Rightarrow> nat \<Rightarrow> date \<Rightarrow> date
     \<Rightarrow> int \<Rightarrow> cache \<times> world \<Rightarrow> (py_error + dataframe) option \<times> cache \<times> world" where
  \<comment> \<open>Modelled from the spec: the memoizing wrapper of \<^verbatim>\<open>st.cache_data\<close>.\<close>
  "cached_fetch_games fuel env net tz now start_date end_date per_page cw =
     (let c = fst cw; w = snd cw; key = (start_date, end_date, per_page) in
      if cache_live c key now
      then (case c key of
              Some (df, t0) \<Rightarrow> (Some (Inr df), c, w)
            | None \<Rightarrow> (None, c, w))
      else (case fetch_games fuel env net tz start_date end_date per_page w of
              (Some (Inr df), w') \<Rightarrow> (Some (Inr df), c(key \<mapsto> (df, now)), w')
            | (other, w') \<Rightarrow> (other, c, w')))"



text \<open>Concrete worlds and networks used as test inputs.\<close>

definition w0 :: world where
  "w0 = \<lparr>http_log = [], sleep_log = []\<rparr>"

definition ok_response :: "json \<Rightarrow> response" where
  "ok_response v = \<lparr>status_code = 200, raise_for_status = None, json_body = Inr v\<rparr>"

definition rate_limited :: response where
  "rate_limited =
     \<lparr>status_code = 429, raise_for_status = Some ''429 Client Error: Too Many Requests'',
      json_body = Inl ''Expecting value''\<rparr>"

definition net_429 :: transport where
  \<comment> \<open>every call is answered 429\<close>
  "net_429 k rq = Inr rate_limited"




text \<open>
  Notions used to state what the loop does. The request of one page; the rows and the next
  cursor that \<open>read_page\<close> finds in a payload; an upstream that, starting at call \<open>k\<close> and
  cursor \<open>cursor\<close>, serves the given pages one per call at the first try, each page but
  the last naming a next cursor and the last naming none.
\<close>

definition page_request ::
  "(string \<times> string) list \<Rightarrow> date \<Rightarrow> date \<Rightarrow> int \<Rightarrow> json \<Rightarrow> request" where
  "page_request headers start_date end_date per_page cursor =
     \<lparr>req_url = games_url, req_params = page_params start_date end_date per_page cursor,
      req_headers = headers, req_timeout = 20\<rparr>"

definition cursor_of :: "request \<Rightarrow> json option" where
  "cursor_of rq = map_of (req_params rq) ''cursor''"

definition page_ok :: "json \<Rightarrow> bool" where
  "page_ok p = (case read_page p of Inl e \<Rightarrow> False | Inr x \<Rightarrow> True)"

definition page_items :: "json \<Rightarrow> json list" where
  "page_items p = (case read_page p of Inl e \<Rightarrow> [] | Inr (items, nc) \<Rightarrow> items)"

definition page_next :: "json \<Rightarrow> json" where
  "page_next p = (case read_page p of Inl e \<Rightarrow> JNull | Inr (items, nc) \<Rightarrow> nc)"

fun serves_pages ::
  "transport \<Rightarrow> (string \<times> string) list \<Rightarrow> date \<Rightarrow> date \<Rightarrow> int \<Rightarrow> nat \<Rightarrow> json \<Rightarrow> json list
     \<Rightarrow> bool" where
  "serves_pages net h sd ed pp k cursor [] = False"
| "serves_pages net h sd ed pp k cursor (p # ps) =
     (classify (net k (page_request h sd ed pp cursor)) = Done p \<and> page_ok p \<and>
      (if ps = [] then page_next p = JNull
       else page_next p \<noteq> JNull \<and> serves_pages net h sd ed pp (Suc k) (page_next p) ps))"

definition meta_without_cursor :: "(string \<times> json) list \<Rightarrow> bool" where
  \<comment> \<open>no \<^verbatim>\<open>meta\<close>, a null \<^verbatim>\<open>meta\<close>, or a \<^verbatim>\<open>meta\<close> object without \<^verbatim>\<open>next_cursor\<close>\<close>
  "meta_without_cursor kvs =
     (case map_of kvs ''meta'' of
        None \<Rightarrow> True
      | Some JNull \<Rightarrow> True
      | Some (JObj m) \<Rightarrow> map_of m ''next_cursor'' = None
      | Some other \<Rightarrow> False)"

text \<open>
  Notions used to state what the table holds. The columns kept of a normalised table; the
  two sort keys of a record; and, for a date range, an upstream row whose \<^verbatim>\<open>date\<close> lies in
  it and a cell that does. Dates are compared as the upstream writes them, as ISO strings
  (their first ten characters), which orders them as calendar dates. A decoded object has
  one value per key.
\<close>

definition kept_columns :: "dataframe \<Rightarrow> string list" where
  "kept_columns df0 =
     filter (\<lambda>c. c \<in> set (df_columns df0) \<or> c = ''tipoff_local'' \<or> c = ''matchup'') keep"

definition sort_keys :: "(string \<times> cell) list \<Rightarrow> (nat \<times> int \<times> string) list" where
  "sort_keys r = [cell_key (cell_of r ''date''), cell_key (cell_of r ''tipoff_local'')]"




text \<open>Games, pages and servers used as test inputs.\<close>

definition team :: "string \<Rightarrow> string \<Rightarrow> json" where
  "team abbreviation full_name =
     JObj [(''abbreviation'', JStr abbreviation), (''full_name'', JStr full_name)]"

definition game :: "int \<Rightarrow> string \<Rightarrow> string \<Rightarrow> string \<Rightarrow> json \<Rightarrow> json \<Rightarrow> json" where
  "game gid gdate gdatetime gstatus visitor home =
     JObj [(''id'', JInt gid), (''date'', JStr gdate), (''datetime'', JStr gdatetime),
           (''status'', JStr gstatus), (''visitor_team'', visitor), (''home_team'', home)]"

definition g1 :: json where
  "g1 = game 1 ''2024-01-03'' ''2024-01-04T00:30:00Z'' ''Final''
          (team ''LAL'' ''Los Angeles Lakers'') (team ''BOS'' ''Boston Celtics'')"

definition g2 :: json where
  "g2 = game 2 ''2024-01-02'' ''2024-01-03T01:00:00Z'' ''Final''
          (team ''MIA'' ''Miami Heat'') (team ''NYK'' ''New York Knicks'')"

definition g3 :: json where
  "g3 = game 3 ''2024-01-02'' ''2024-01-03T00:00:00Z'' ''1st Qtr''
          (team ''DEN'' ''Denver Nuggets'') (team ''PHX'' ''Phoenix Suns'')"

definition page_a :: json where
  "page_a = JObj [(''data'', JList [g1, g2]), (''meta'', JObj [(''next_cursor'', JStr ''c1'')])]"

definition page_b :: json where
  "page_b = JObj [(''data'', JList [g3]), (''meta'', JObj [(''next_cursor'', JNull)])]"

definition net_two_pages :: transport where
  \<comment> \<open>the answer depends on the cursor asked for\<close>
  "net_two_pages k rq =
     (if cursor_of rq = Some (JInt 0) then Inr (ok_response page_a)
      else if cursor_of rq = Some (JStr ''c1'') then Inr (ok_response page_b)
      else Inl ''unknown cursor'')"

definition net_cycle :: transport where
  \<comment> \<open>every page names cursor 1 as the next one\<close>
  "net_cycle k rq =
     Inr (ok_response (JObj [(''data'', JList []), (''meta'', JObj [(''next_cursor'', JInt 1)])]))"

definition jan1 :: date where
  "jan1 = \<lparr>year = 2024, month = 1, day = 1\<rparr>"

definition jan7 :: date where
  "jan7 = \<lparr>year = 2024, month = 1, day = 7\<rparr>"

definition single_page :: "json list \<Rightarrow> json" where
  \<comment> \<open>a last page holding the given rows\<close>
  "single_page rows =
     JObj [(''data'', JList rows), (''meta'', JObj [(''next_cursor'', JNull)])]"

definition net_one :: "json \<Rightarrow> transport" where
  \<comment> \<open>answers every request with the same page\<close>
  "net_one page k rq = Inr (ok_response page)"

definition bare_game :: json where
  \<comment> \<open>a game without team objects\<close>
  "bare_game = JObj [(''id'', JInt 7), (''date'', JStr ''2024-01-05'')]"



definition madrid :: "json \<Rightarrow> string option" where
  \<comment> \<open>the local tipoff strings of the three test games\<close>
  "madrid v =
     (if v = JStr ''2024-01-04T00:30:00Z'' then Some ''2024-01-04 01:30''
      else if v = JStr ''2024-01-03T01:00:00Z'' then Some ''2024-01-03 02:00''
      else if v = JStr ''2024-01-03T00:00:00Z'' then Some ''2024-01-03 01:00''
      else None)"

definition env_key :: "string \<rightharpoonup> string" where
  "env_key = [''BALLDONTLIE_API_KEY'' \<mapsto> ''secret'']"

definition key_headers :: "(string \<times> string) list" where
  "key_headers = [(''Authorization'', ''secret'')]"

definition two_pages_frame :: dataframe where
  "two_pages_frame =
     \<lparr>df_columns =
        [''id'', ''date'', ''tipoff_local'', ''status'',
         ''visitor_team.abbreviation'', ''home_team.abbreviation'', ''matchup''],
      df_rows =
        [[(''id'', Val (JInt 3)), (''date'', Val (JStr ''2024-01-02'')),
          (''tipoff_local'', Val (JStr ''2024-01-03 01:00'')),
          (''status'', Val (JStr ''1st Qtr'')),
          (''visitor_team.abbreviation'', Val (JStr ''DEN'')),
          (''home_team.abbreviation'', Val (JStr ''PHX'')),
          (''matchup'', Val (JStr ''Denver Nuggets @ Phoenix Suns''))],
         [(''id'', Val (JInt 2)), (''date'', Val (JStr ''2024-01-02'')),
          (''tipoff_local'', Val (JStr ''2024-01-03 02:00'')),
          (''status'', Val (JStr ''Final'')),
          (''visitor_team.abbreviation'', Val (JStr ''MIA'')),
          (''home_team.abbreviation'', Val (JStr ''NYK'')),
          (''matchup'', Val (JStr ''Miami Heat @ New York Knicks''))],
         [(''id'', Val (JInt 1)), (''date'', Val (JStr ''2024-01-03'')),
          (''tipoff_local'', Val (JStr ''2024-01-04 01:30'')),
          (''status'', Val (JStr ''Final'')),
          (''visitor_team.abbreviation'', Val (JStr ''LAL'')),
          (''home_team.abbreviation'', Val (JStr ''BOS'')),
          (''matchup'', Val (JStr ''Los Angeles Lakers @ Boston Celtics''))]]\<rparr>"




definition two_pages_world :: world where
  "two_pages_world =
     \<lparr>http_log = [page_request key_headers jan1 jan7 100 (JInt 0),
                  page_request key_headers jan1 jan7 100 (JStr ''c1'')],
      sleep_log = []\<rparr>"

section \<open>Properties of \<^verbatim>\<open>safe_get\<close>\<close>












section \<open>Properties of the paginated collector\<close>

lemma safe_get_first_try:
  assumes "classify (net (length (http_log w)) rq) = Done v"
    and "rq = \<lparr>req_url = url, req_params = params, req_headers = headers,
               req_timeout = timeout\<rparr>"
    and "0 < retries"
  shows "safe_get net url params headers timeout retries backoff w =
     (Inr v, w\<lparr>http_log := http_log w @ [rq]\<rparr>)"
proof -
  have "[0..<nat retries] = 0 # [1..<nat retries]"
    using assms(3) by (simp add: upt_conv_Cons)
  then show ?thesis using assms(1,2) by (simp add: safe_get_def)
qed

text \<open>
  The loop over an upstream that serves \<open>pages\<close>: it returns the rows of all pages in
  order, after one request per page, the first for the starting cursor and each later one
  for the cursor the page before named.
\<close>

lemma fetch_games_loop_serves:
  "serves_pages net h sd ed pp (length (http_log w)) cursor pages \<Longrightarrow> length pages \<le> fuel \<Longrightarrow>
   fetch_games_loop fuel net h sd ed pp cursor rows w =
     (Some (Inr (rows @ concat (map page_items pages))),
      w\<lparr>http_log := http_log w
            @ map (page_request h sd ed pp) (cursor # map page_next (butlast pages))\<rparr>)"
proof (induction pages arbitrary: fuel cursor rows w)
  case Nil
  then show ?case by simp
next
  case (Cons p ps)
  obtain f where fuel: "fuel = Suc f" and f: "length ps \<le> f"
    using Cons.prems(2) by (cases fuel) auto
  let ?rq = "page_request h sd ed pp cursor"
  let ?w1 = "w\<lparr>http_log := http_log w @ [?rq]\<rparr>"
  have d: "classify (net (length (http_log w)) ?rq) = Done p" and ok: "page_ok p"
    using Cons.prems(1) by simp_all
  have sg: "safe_get net games_url (page_params sd ed pp cursor) h 20 4 (9/5) w = (Inr p, ?w1)"
    using d safe_get_first_try[of net w ?rq p games_url "page_params sd ed pp cursor" h 20 4 "9/5"]
    by (simp add: page_request_def)
  obtain items nc where rp: "read_page p = Inr (items, nc)"
    using ok by (auto simp: page_ok_def split: sum.splits)
  have pi: "page_items p = items" and pn: "page_next p = nc"
    by (simp_all add: page_items_def page_next_def rp)
  show ?case
  proof (cases "ps = []")
    case True
    then have "nc = JNull" using Cons.prems(1) pn by simp
    then show ?thesis by (simp add: fuel sg rp pi True)
  next
    case False
    then have nn: "nc \<noteq> JNull"
      and sv: "serves_pages net h sd ed pp (length (http_log ?w1)) nc ps"
      using Cons.prems(1) pn by simp_all
    have "fetch_games_loop fuel net h sd ed pp cursor rows w =
        fetch_games_loop f net h sd ed pp nc (rows @ items) ?w1"
      by (simp add: fuel sg rp nn)
    also have "\<dots> = (Some (Inr ((rows @ items) @ concat (map page_items ps))),
        ?w1\<lparr>http_log := http_log ?w1
               @ map (page_request h sd ed pp) (nc # map page_next (butlast ps))\<rparr>)"
      by (rule Cons.IH[OF sv f])
    finally show ?thesis by (simp add: pi pn False)
  qed
qed


lemma cursor_of_page_request [simp]: "cursor_of (page_request h sd ed pp c) = Some c"
  by (simp add: cursor_of_def page_request_def page_params_def)

text \<open>Evaluation of the test inputs.\<close>

lemma read_page_a: "read_page page_a = Inr ([g1, g2], JStr ''c1'')"
  by (simp add: read_page_def page_a_def dict_get_def py_iter_def truthy_def)

lemma read_page_b: "read_page page_b = Inr ([g3], JNull)"
  by (simp add: read_page_def page_b_def dict_get_def py_iter_def truthy_def)

lemma serves_two_pages:
  "serves_pages net_two_pages h sd ed pp k (JInt 0) [page_a, page_b]"
  by (simp add: net_two_pages_def classify_def ok_response_def page_ok_def page_next_def
      read_page_a read_page_b)



text \<open>The server that always names cursor 1: one turn of the loop, and every run.\<close>

lemma read_page_cycle:
  "read_page (JObj [(''data'', JList []), (''meta'', JObj [(''next_cursor'', JInt 1)])])
     = Inr ([], JInt 1)"
  by (simp add: read_page_def dict_get_def py_iter_def truthy_def)

lemma net_cycle_step:
  "fetch_games_loop (Suc fuel) net_cycle h sd ed pp cursor rows w =
     fetch_games_loop fuel net_cycle h sd ed pp (JInt 1) rows
       (w\<lparr>http_log := http_log w @ [page_request h sd ed pp cursor]\<rparr>)"
proof -
  let ?p = "JObj [(''data'', JList []), (''meta'', JObj [(''next_cursor'', JInt 1)])]"
  let ?rq = "page_request h sd ed pp cursor"
  have d: "classify (net_cycle (length (http_log w)) ?rq) = Done ?p"
    by (simp add: net_cycle_def classify_def ok_response_def)
  have sg: "safe_get net_cycle games_url (page_params sd ed pp cursor) h 20 4 (9/5) w
      = (Inr ?p, w\<lparr>http_log := http_log w @ [?rq]\<rparr>)"
    using d safe_get_first_try[of net_cycle w ?rq ?p games_url
        "page_params sd ed pp cursor" h 20 4 "9/5"]
    by (simp add: page_request_def)
  show ?thesis by (simp add: sg read_page_cycle)
qed

lemma net_cycle_never_returns:
  "fst (fetch_games_loop fuel net_cycle h sd ed pp cursor rows w) = None"
  by (induction fuel arbitrary: cursor rows w)
     (simp_all add: net_cycle_step del: fetch_games_loop.simps(2))




text \<open>
  Claim C9. For a payload that is an object. Without a \<^verbatim>\<open>data\<close> field the page
  contributes no rows and does not raise: with no usable cursor it reads as no rows and no
  cursor, and with a cursor in \<^verbatim>\<open>meta\<close> it reads as no rows and that cursor, so the loop
  goes on with the rows it had. A page whose \<^verbatim>\<open>meta\<close> is missing, is null or has no
  \<^verbatim>\<open>next_cursor\<close> reads as its own rows and a null cursor, and the loop then ends
  normally with the rows collected so far followed by the rows of this page.
\<close>

theorem read_page_tolerant:
  "(map_of kvs ''data'' = None \<and> meta_without_cursor kvs \<longrightarrow>
      read_page (JObj kvs) = Inr ([], JNull))
   \<and> (map_of kvs ''data'' = None \<and> map_of kvs ''meta'' = Some (JObj m) \<and>
      map_of m ''next_cursor'' = Some c \<longrightarrow>
      read_page (JObj kvs) = Inr ([], c))
   \<and> (map_of kvs ''data'' = Some (JList xs) \<and> meta_without_cursor kvs \<longrightarrow>
      read_page (JObj kvs) = Inr (xs, JNull))
   \<and> (map_of kvs ''data'' = None \<and> meta_without_cursor kvs \<and>
      safe_get net games_url (page_params sd ed pp cursor) h 20 4 (9/5) w
        = (Inr (JObj kvs), w') \<longrightarrow>
      fetch_games_loop (Suc fuel) net h sd ed pp cursor rows w = (Some (Inr rows), w'))
   \<and> (map_of kvs ''data'' = Some (JList xs) \<and> meta_without_cursor kvs \<and>
      safe_get net games_url (page_params sd ed pp cursor) h 20 4 (9/5) w
        = (Inr (JObj kvs), w') \<longrightarrow>
      fetch_games_loop (Suc fuel) net h sd ed pp cursor rows w
        = (Some (Inr (rows @ xs)), w'))
   \<and> (map_of kvs ''data'' = None \<and> map_of kvs ''meta'' = Some (JObj m) \<and>
      map_of m ''next_cursor'' = Some c \<and> c \<noteq> JNull \<and>
      safe_get net games_url (page_params sd ed pp cursor) h 20 4 (9/5) w
        = (Inr (JObj kvs), w') \<longrightarrow>
      fetch_games_loop (Suc fuel) net h sd ed pp cursor rows w
        = fetch_games_loop fuel net h sd ed pp c rows w')"
proof -
  have nx: "(case dict_get (JObj kvs) ''meta'' (JObj []) of
        Inl e \<Rightarrow> Inl e
      | Inr m0 \<Rightarrow>
          (case dict_get (if truthy m0 then m0 else JObj []) ''next_cursor'' JNull of
             Inl e \<Rightarrow> Inl e
           | Inr next_cursor \<Rightarrow> Inr (items, next_cursor))) = Inr (items, JNull)"
    if "meta_without_cursor kvs" for items :: "json list"
    using that by (auto simp: meta_without_cursor_def dict_get_def truthy_def
        split: option.splits json.splits)
  have cur: "(case dict_get (JObj kvs) ''meta'' (JObj []) of
        Inl e \<Rightarrow> Inl e
      | Inr m0 \<Rightarrow>
          (case dict_get (if truthy m0 then m0 else JObj []) ''next_cursor'' JNull of
             Inl e \<Rightarrow> Inl e
           | Inr next_cursor \<Rightarrow> Inr (items, next_cursor))) = Inr (items, c)"
    if "map_of kvs ''meta'' = Some (JObj m)" and "map_of m ''next_cursor'' = Some c"
    for items :: "json list"
  proof -
    have "m \<noteq> []" using that(2) by auto
    then show ?thesis using that by (simp add: dict_get_def truthy_def)
  qed
  have a: "read_page (JObj kvs) = Inr ([], JNull)"
    if "map_of kvs ''data'' = None" and "meta_without_cursor kvs"
    using that(1) nx[OF that(2), of "[]"] by (simp add: read_page_def dict_get_def py_iter_def)
  have b: "read_page (JObj kvs) = Inr ([], c)"
    if "map_of kvs ''data'' = None" and "map_of kvs ''meta'' = Some (JObj m)"
      and "map_of m ''next_cursor'' = Some c"
    using that(1) cur[OF that(2,3), of "[]"]
    by (simp add: read_page_def dict_get_def py_iter_def)
  have d: "read_page (JObj kvs) = Inr (xs, JNull)"
    if "map_of kvs ''data'' = Some (JList xs)" and "meta_without_cursor kvs"
    using that(1) nx[OF that(2), of xs] by (simp add: read_page_def dict_get_def py_iter_def)
  show ?thesis
  proof (intro conjI impI; elim conjE)
    show "read_page (JObj kvs) = Inr ([], JNull)"
      if "map_of kvs ''data'' = None" and "meta_without_cursor kvs"
      using that by (rule a)
    show "read_page (JObj kvs) = Inr ([], c)"
      if "map_of kvs ''data'' = None" and "map_of kvs ''meta'' = Some (JObj m)"
        and "map_of m ''next_cursor'' = Some c"
      using that by (rule b)
    show "read_page (JObj kvs) = Inr (xs, JNull)"
      if "map_of kvs ''data'' = Some (JList xs)" and "meta_without_cursor kvs"
      using that by (rule d)
    show "fetch_games_loop (Suc fuel) net h sd ed pp cursor rows w = (Some (Inr rows), w')"
      if "map_of kvs ''data'' = None" and "meta_without_cursor kvs"
        and "safe_get net games_url (page_params sd ed pp cursor) h 20 4 (9/5) w
          = (Inr (JObj kvs), w')"
      using a[OF that(1,2)] that(3) by simp
    show "fetch_games_loop (Suc fuel) net h sd ed pp cursor rows w
        = (Some (Inr (rows @ xs)), w')"
      if "map_of kvs ''data'' = Some (JList xs)" and "meta_without_cursor kvs"
        and "safe_get net games_url (page_params sd ed pp cursor) h 20 4 (9/5) w
          = (Inr (JObj kvs), w')"
      using d[OF that(1,2)] that(3) by simp
    show "fetch_games_loop (Suc fuel) net h sd ed pp cursor rows w
        = fetch_games_loop fuel net h sd ed pp c rows w'"
      if "map_of kvs ''data'' = None" and "map_of kvs ''meta'' = Some (JObj m)"
        and "map_of m ''next_cursor'' = Some c" and "c \<noteq> JNull"
        and "safe_get net games_url (page_params sd ed pp cursor) h 20 4 (9/5) w
          = (Inr (JObj kvs), w')"
      using b[OF that(1,2,3)] that(4,5) by simp
  qed
qed

lemma safe_get_net_one:
  "safe_get (net_one page) games_url (page_params jan1 jan7 100 (JInt 0)) [] 20 4 (9/5) w0
     = (Inr page, \<lparr>http_log = [page_request [] jan1 jan7 100 (JInt 0)], sleep_log = []\<rparr>)"
  using safe_get_first_try[of "net_one page" w0 "page_request [] jan1 jan7 100 (JInt 0)" page
      games_url "page_params jan1 jan7 100 (JInt 0)" "[]" 20 4 "9/5"]
  by (simp add: net_one_def classify_def ok_response_def page_request_def w0_def)

theorem read_page_tolerant_witness:
  "read_page (JObj []) = Inr ([], JNull)
   \<and> read_page (JObj [(''meta'', JObj [(''next_cursor'', JInt 5)])]) = Inr ([], JInt 5)
   \<and> read_page (JObj [(''data'', JList [g3]), (''meta'', JNull)]) = Inr ([g3], JNull)
   \<and> fetch_games_loop (Suc 0) (net_one (JObj [])) [] jan1 jan7 100 (JInt 0) [g1] w0
      = (Some (Inr [g1]),
         \<lparr>http_log = [page_request [] jan1 jan7 100 (JInt 0)], sleep_log = []\<rparr>)
   \<and> fetch_games_loop (Suc 0) (net_one (JObj [(''data'', JList [g2, g3])])) [] jan1 jan7 100
        (JInt 0) [g1] w0
      = (Some (Inr [g1, g2, g3]),
         \<lparr>http_log = [page_request [] jan1 jan7 100 (JInt 0)], sleep_log = []\<rparr>)
   \<and> fetch_games_loop (Suc 0)
        (net_one (JObj [(''meta'', JObj [(''next_cursor'', JInt 5)])])) [] jan1 jan7 100
        (JInt 0) [g1] w0
      = (None,
         \<lparr>http_log = [page_request [] jan1 jan7 100 (JInt 0)], sleep_log = []\<rparr>)"
proof -
  let ?w = "\<lparr>http_log = [page_request [] jan1 jan7 100 (JInt 0)], sleep_log = []\<rparr>"
  let ?m = "[(''next_cursor'', JInt 5)]"
  have m0: "meta_without_cursor []"
    and m1: "meta_without_cursor [(''data'', JList [g3]), (''meta'', JNull)]"
    and m2: "meta_without_cursor [(''data'', JList [g2, g3])]"
    by (simp_all add: meta_without_cursor_def)
  have r0: "read_page (JObj []) = Inr ([], JNull)"
    using read_page_tolerant[of "[]"] m0 by simp
  have r1: "read_page (JObj [(''meta'', JObj ?m)]) = Inr ([], JInt 5)"
    using read_page_tolerant[of "[(''meta'', JObj ?m)]" ?m "JInt 5"] by simp
  have r2: "read_page (JObj [(''data'', JList [g3]), (''meta'', JNull)]) = Inr ([g3], JNull)"
    using read_page_tolerant[of "[(''data'', JList [g3]), (''meta'', JNull)]" _ _ "[g3]"] m1
    by simp
  have l0: "fetch_games_loop (Suc 0) (net_one (JObj [])) [] jan1 jan7 100 (JInt 0) [g1] w0
      = (Some (Inr [g1]), ?w)"
    using read_page_tolerant[of "[]" _ _ _ "net_one (JObj [])" jan1 jan7 100 "JInt 0" "[]"
        w0 ?w 0 "[g1]"] m0 safe_get_net_one[of "JObj []"]
    by (simp del: fetch_games_loop.simps)
  have l1: "fetch_games_loop (Suc 0) (net_one (JObj [(''data'', JList [g2, g3])])) []
        jan1 jan7 100 (JInt 0) [g1] w0 = (Some (Inr [g1, g2, g3]), ?w)"
    using read_page_tolerant[of "[(''data'', JList [g2, g3])]" _ _ "[g2, g3]"
        "net_one (JObj [(''data'', JList [g2, g3])])" jan1 jan7 100 "JInt 0" "[]" w0 ?w 0 "[g1]"]
      m2 safe_get_net_one[of "JObj [(''data'', JList [g2, g3])]"]
    by (simp del: fetch_games_loop.simps)
  have l2: "fetch_games_loop (Suc 0) (net_one (JObj [(''meta'', JObj ?m)])) [] jan1 jan7 100
        (JInt 0) [g1] w0 = (None, ?w)"
    using read_page_tolerant[of "[(''meta'', JObj ?m)]" ?m "JInt 5" _
        "net_one (JObj [(''meta'', JObj ?m)])" jan1 jan7 100 "JInt 0" "[]" w0 ?w 0 "[g1]"]
      safe_get_net_one[of "JObj [(''meta'', JObj ?m)]"]
    by (simp del: fetch_games_loop.simps(2))
  show ?thesis using r0 r1 r2 l0 l1 l2 by blast
qed

section \<open>Properties of the table\<close>


lemma select_present:
  "select_columns (filter (\<lambda>c. c \<in> set (df_columns df)) cs) df =
     Inr \<lparr>df_columns = filter (\<lambda>c. c \<in> set (df_columns df)) cs,
          df_rows = map (\<lambda>r. map (\<lambda>c. (c, cell_of r c)) (filter (\<lambda>c. c \<in> set (df_columns df)) cs))
                      (df_rows df)\<rparr>"
proof -
  have "filter (\<lambda>c. c \<notin> set (df_columns df)) (filter (\<lambda>c. c \<in> set (df_columns df)) cs) = []"
    by (induction cs) auto
  then show ?thesis by (simp add: select_columns_def)
qed

lemma set_add_column: "set (add_column cols c) = insert c (set cols)"
  by (auto simp: add_column_def)

lemma columns_set_column [simp]: "df_columns (set_column c vals df) = add_column (df_columns df) c"
  by (simp add: set_column_def)

lemma columns_add_tipoff:
  "df_columns (add_tipoff_local tz df) = add_column (df_columns df) ''tipoff_local''"
  by (simp add: add_tipoff_local_def)

lemma build_frame_inv:
  assumes "build_frame tz rows = Inr df" and "rows \<noteq> []"
  shows "\<exists>df0 m. json_normalize rows = Inr df0
      \<and> matchup_column (add_tipoff_local tz df0) = Inr m
      \<and> ''date'' \<in> set (df_columns df0)
      \<and> df = \<lparr>df_columns = kept_columns df0,
              df_rows = sort_key sort_keys
                (map (\<lambda>r. map (\<lambda>c. (c, cell_of r c)) (kept_columns df0))
                   (df_rows (set_column ''matchup'' m (add_tipoff_local tz df0))))\<rparr>"
proof -
  obtain df0 where n: "json_normalize rows = Inr df0"
    using assms by (auto simp: build_frame_def split: sum.splits)
  let ?df1 = "add_tipoff_local tz df0"
  obtain m where m: "matchup_column ?df1 = Inr m"
    using assms n by (auto simp: build_frame_def Let_def split: sum.splits)
  let ?df2 = "set_column ''matchup'' m ?df1"
  have cols2: "set (df_columns ?df2) = insert ''matchup'' (insert ''tipoff_local'' (set (df_columns df0)))"
    by (simp add: set_add_column columns_add_tipoff)
  have kc: "filter (\<lambda>c. c \<in> set (df_columns ?df2)) keep = kept_columns df0"
    unfolding cols2 kept_columns_def by (rule filter_cong) auto
  let ?df3 = "\<lparr>df_columns = kept_columns df0,
      df_rows = map (\<lambda>r. map (\<lambda>c. (c, cell_of r c)) (kept_columns df0)) (df_rows ?df2)\<rparr>"
  have sel: "select_columns (filter (\<lambda>c. c \<in> set (df_columns ?df2)) keep) ?df2 = Inr ?df3"
    using select_present[of ?df2 keep] unfolding kc .
  have tk: "''tipoff_local'' \<in> set (kept_columns df0)"
    by (simp add: kept_columns_def keep_def)
  have sv: "sort_values [''date'', ''tipoff_local''] ?df3 = Inr df"
    using assms n m sel tk by (simp add: build_frame_def Let_def)
  have sk: "(\<lambda>r. [cell_key (cell_of r ''date''), cell_key (cell_of r ''tipoff_local'')]) = sort_keys"
    by (rule ext) (simp add: sort_keys_def)
  have d: "''date'' \<in> set (kept_columns df0)"
    using sv by (auto simp: sort_values_def split: list.splits if_splits)
  then have d0: "''date'' \<in> set (df_columns df0)"
    by (auto simp: kept_columns_def)
  have "df = ?df3\<lparr>df_rows := sort_key sort_keys (df_rows ?df3)\<rparr>"
    using sv d tk by (auto simp: sort_values_def sk split: list.splits if_splits)
  then show ?thesis using n m d0 by simp
qed





lemma fetch_games_inv:
  assumes "fetch_games fuel env net tz sd ed pp w = (Some (Inr df), w')"
  shows "\<exists>h rows. bdl_headers env = Inr h
     \<and> fetch_games_loop fuel net h sd ed pp (JInt 0) [] w = (Some (Inr rows), w')
     \<and> build_frame tz rows = Inr df"
  using assms by (auto simp: fetch_games_def split: sum.splits prod.splits option.splits)




lemma keys_le_iff:
  fixes a c :: "'a::linorder" 
  shows "([a, b] \<le> [c, d]) = ((a, b) \<le> (c, d))"
  by (auto simp: less_eq_prod_def)

lemma build_frame_sorted:
  assumes "build_frame tz rows = Inr df"
  shows "sorted (map (\<lambda>r. (cell_key (cell_of r ''date''), cell_key (cell_of r ''tipoff_local'')))
           (df_rows df))"
proof (cases "rows = []")
  case True
  then show ?thesis using assms by (auto simp: build_frame_def empty_frame_def)
next
  case False
  obtain df0 m where df: "df = \<lparr>df_columns = kept_columns df0,
              df_rows = sort_key sort_keys
                (map (\<lambda>r. map (\<lambda>c. (c, cell_of r c)) (kept_columns df0))
                   (df_rows (set_column ''matchup'' m (add_tipoff_local tz df0))))\<rparr>"
    using build_frame_inv[OF assms False] by blast
  have "sorted (map sort_keys (df_rows df))"
    by (simp add: df)
  then show ?thesis
    by (simp only: sorted_map sort_keys_def keys_le_iff)
qed

subsection \<open>Where a plain field of a row ends up\<close>






section \<open>Runs of \<^verbatim>\<open>fetch_games\<close> on the test inputs\<close>


lemma bdl_headers_env_key: "bdl_headers env_key = Inr key_headers"
  by (simp add: bdl_headers_def env_key_def key_headers_def)

lemma read_single_page: "read_page (single_page rows) = Inr (rows, JNull)"
  by (simp add: read_page_def single_page_def dict_get_def py_iter_def truthy_def)

lemma fetch_games_loop_one_page:
  "fetch_games_loop (Suc fuel) (net_one (single_page rows)) h sd ed pp (JInt 0) [] w0
      = (Some (Inr rows), \<lparr>http_log = [page_request h sd ed pp (JInt 0)], sleep_log = []\<rparr>)"
proof -
  have sv: "serves_pages (net_one (single_page rows)) h sd ed pp (length (http_log w0))
      (JInt 0) [single_page rows]"
    by (simp add: net_one_def classify_def ok_response_def page_ok_def page_next_def
        read_single_page)
  show ?thesis
    using fetch_games_loop_serves[OF sv, of "Suc fuel" "[]"]
    by (simp add: page_items_def read_single_page w0_def del: fetch_games_loop.simps)
qed

lemma fetch_games_one_page:
  "fetch_games (Suc fuel) env_key (net_one (single_page rows)) tz sd ed pp w0 =
     (Some (build_frame tz rows),
      \<lparr>http_log = [page_request key_headers sd ed pp (JInt 0)], sleep_log = []\<rparr>)"
  by (simp add: fetch_games_def bdl_headers_env_key fetch_games_loop_one_page
      del: fetch_games_loop.simps)

lemma fetch_games_loop_two_pages:
  "fetch_games_loop 2 net_two_pages h jan1 jan7 100 (JInt 0) [] w0
      = (Some (Inr [g1, g2, g3]),
         \<lparr>http_log = [page_request h jan1 jan7 100 (JInt 0),
                   page_request h jan1 jan7 100 (JStr ''c1'')], sleep_log = []\<rparr>)"
  using fetch_games_loop_serves[of net_two_pages h jan1 jan7 100 w0 "JInt 0"
      "[page_a, page_b]" 2 "[]"]
    serves_two_pages[of h jan1 jan7 100 "length (http_log w0)"]
  by (simp add: page_items_def page_next_def read_page_a read_page_b w0_def
      del: fetch_games_loop.simps)

lemma fetch_games_two_pages:
  "fetch_games 2 env_key net_two_pages tz jan1 jan7 100 w0 =
     (Some (build_frame tz [g1, g2, g3]),
      \<lparr>http_log = [page_request key_headers jan1 jan7 100 (JInt 0),
                   page_request key_headers jan1 jan7 100 (JStr ''c1'')],
       sleep_log = []\<rparr>)"
  by (simp add: fetch_games_def bdl_headers_env_key fetch_games_loop_two_pages
      del: fetch_games_loop.simps)

lemma build_frame_games: "build_frame madrid [g1, g2, g3] = Inr two_pages_frame"
  by code_simp

lemma build_frame_bare: "build_frame madrid [bare_game] = Inl (AttributeError ''fillna'')"
  by code_simp

lemma build_frame_mixed:
  "map (\<lambda>r. cell_of r ''matchup'')
     (case build_frame madrid [g1, bare_game] of Inl e \<Rightarrow> [] | Inr df \<Rightarrow> df_rows df)
   = [Val (JStr ''Los Angeles Lakers @ Boston Celtics''), Val (JStr '' @ '')]"
  by code_simp

section \<open>Properties of \<^verbatim>\<open>fetch_games\<close>\<close>






lemma pair_le_fst:
  fixes a c :: "'a::linorder" and b d :: "'b::linorder"
  shows "(a, b) \<le> (c, d) \<Longrightarrow> a \<le> c"
  by (auto simp: less_eq_prod_def)

text \<open>
  Claim C8. The rows of every table that \<^verbatim>\<open>fetch_games\<close> returns are in ascending order
  of the pair (date, local tipoff string), a missing cell counting as larger than any
  value; so a record without a tipoff time is placed by its date, after the records of the
  same date that have one, and the records without a tipoff time are in order of date.
\<close>

theorem fetch_games_sorted:
  assumes "fetch_games fuel env net tz sd ed pp w = (Some (Inr df), w')"
  shows "sorted (map (\<lambda>r. (cell_key (cell_of r ''date''), cell_key (cell_of r ''tipoff_local'')))
           (df_rows df))
     \<and> sorted (map (\<lambda>r. cell_key (cell_of r ''date''))
           (filter (\<lambda>r. isna (cell_of r ''tipoff_local'')) (df_rows df)))"
proof -
  obtain rows where b: "build_frame tz rows = Inr df"
    using fetch_games_inv[OF assms] by blast
  have p: "sorted (map (\<lambda>r. (cell_key (cell_of r ''date''), cell_key (cell_of r ''tipoff_local'')))
           (df_rows df))"
    using b by (rule build_frame_sorted)
  then have "sorted (map (\<lambda>r. cell_key (cell_of r ''date'')) (df_rows df))"
    unfolding sorted_map by (rule sorted_wrt_mono_rel[rotated]) (rule pair_le_fst)
  then have "sorted (map (\<lambda>r. cell_key (cell_of r ''date''))
           (filter (\<lambda>r. isna (cell_of r ''tipoff_local'')) (df_rows df)))"
    by (rule sorted_filter)
  with p show ?thesis by blast
qed

theorem fetch_games_sorted_witness:
  "fetch_games 2 env_key net_two_pages madrid jan1 jan7 100 w0 =
     (Some (Inr two_pages_frame),
      \<lparr>http_log = [page_request key_headers jan1 jan7 100 (JInt 0),
                   page_request key_headers jan1 jan7 100 (JStr ''c1'')],
       sleep_log = []\<rparr>)
   \<and> map (\<lambda>r. (cell_of r ''date'', cell_of r ''tipoff_local'')) (df_rows two_pages_frame)
       = [(Val (JStr ''2024-01-02''), Val (JStr ''2024-01-03 01:00'')),
          (Val (JStr ''2024-01-02''), Val (JStr ''2024-01-03 02:00'')),
          (Val (JStr ''2024-01-03''), Val (JStr ''2024-01-04 01:30''))]
   \<and> sorted (map (\<lambda>r. (cell_key (cell_of r ''date''), cell_key (cell_of r ''tipoff_local'')))
           (df_rows two_pages_frame))"
proof -
  have run: "fetch_games 2 env_key net_two_pages madrid jan1 jan7 100 w0 =
     (Some (Inr two_pages_frame),
      \<lparr>http_log = [page_request key_headers jan1 jan7 100 (JInt 0),
                   page_request key_headers jan1 jan7 100 (JStr ''c1'')],
       sleep_log = []\<rparr>)"
    by (simp add: fetch_games_two_pages build_frame_games)
  have cells: "map (\<lambda>r. (cell_of r ''date'', cell_of r ''tipoff_local'')) (df_rows two_pages_frame)
       = [(Val (JStr ''2024-01-02''), Val (JStr ''2024-01-03 01:00'')),
          (Val (JStr ''2024-01-02''), Val (JStr ''2024-01-03 02:00'')),
          (Val (JStr ''2024-01-03''), Val (JStr ''2024-01-04 01:30''))]"
    by (simp add: two_pages_frame_def cell_of_def)
  show ?thesis
    using fetch_games_sorted[OF run] run cells by blast
qed

text \<open>
  Claim C7 at its failing input: a response whose only row has no team objects. No column
  \<^verbatim>\<open>visitor_team.full_name\<close> exists, \<^verbatim>\<open>df.get\<close> gives the string \<^verbatim>\<open>""\<close>, and
  \<^verbatim>\<open>"".fillna\<close> raises: \<^verbatim>\<open>fetch_games\<close> fails where the claim promises the matchup
  \<^verbatim>\<open>" @ "\<close>. (Next to a row that has the names, the same row does get \<^verbatim>\<open>" @ "\<close>:
  \<open>build_frame_mixed\<close>.)
\<close>

theorem fetch_games_missing_names_fail:
  "fetch_games 1 env_key (net_one (single_page [bare_game])) madrid jan1 jan7 100 w0 =
     (Some (Inl (AttributeError ''fillna'')),
      \<lparr>http_log = [page_request key_headers jan1 jan7 100 (JInt 0)], sleep_log = []\<rparr>)"
  using fetch_games_one_page[of 0 "[bare_game]" madrid jan1 jan7 100]
  by (simp add: build_frame_bare)

subsection \<open>Dates of the records\<close>












section \<open>Properties of the cache\<close>

text \<open>
  Claim C5, on the cache as the spec describes it. After a call that computed and returned
  a table at time \<open>t1\<close>, a call with the same \<open>(start_date, end_date, per_page)\<close> at a time
  \<open>t2\<close> with \<open>t1 \<le> t2 < t1 + 600\<close> returns the same table and leaves the world as it was:
  no request is sent, whatever the network, the environment or the fuel.
\<close>

theorem cached_fetch_games_idempotent:
  assumes "\<not> cache_live c (sd, ed, pp) t1"
    and "cached_fetch_games fuel env net tz t1 sd ed pp (c, w) = (Some (Inr df), c1, w1)"
    and "t1 \<le> t2" and "t2 < t1 + ttl"
  shows "cached_fetch_games fuel' env' net' tz' t2 sd ed pp (c1, w1) = (Some (Inr df), c1, w1)"
proof -
  have "c1 (sd, ed, pp) = Some (df, t1)"
    using assms(1,2)
    by (auto simp: cached_fetch_games_def Let_def split: prod.splits option.splits sum.splits)
  then show ?thesis
    using assms(4) by (simp add: cached_fetch_games_def cache_live_def)
qed

theorem cached_fetch_games_idempotent_witness:
  "cached_fetch_games 2 env_key net_two_pages madrid 0 jan1 jan7 100 (Map.empty, w0)
     = (Some (Inr two_pages_frame),
        [(jan1, jan7, 100) \<mapsto> (two_pages_frame, 0)], two_pages_world)
   \<and> cached_fetch_games 0 Map.empty net_429 madrid 599 jan1 jan7 100
        ([(jan1, jan7, 100) \<mapsto> (two_pages_frame, 0)], two_pages_world)
     = (Some (Inr two_pages_frame),
        [(jan1, jan7, 100) \<mapsto> (two_pages_frame, 0)], two_pages_world)"
proof -
  have first: "cached_fetch_games 2 env_key net_two_pages madrid 0 jan1 jan7 100 (Map.empty, w0)
     = (Some (Inr two_pages_frame),
        [(jan1, jan7, 100) \<mapsto> (two_pages_frame, 0)], two_pages_world)"
    by (simp add: cached_fetch_games_def cache_live_def fetch_games_two_pages build_frame_games
        two_pages_world_def)
  have dead: "\<not> cache_live Map.empty (jan1, jan7, 100) 0"
    by (simp add: cache_live_def)
  show ?thesis
    using cached_fetch_games_idempotent[OF dead first, of 599 0 Map.empty net_429 madrid] first
    by (simp add: ttl_def)
qed

end
